theory Spec2Isabelle
  imports Main
begin

section \<open>The Either type\<close>

text \<open>
  \<^verbatim>\<open>types.ts\<close> declares \<^verbatim>\<open>Either<L, R>\<close> as the union of the two object shapes
  \<^verbatim>\<open>{ _tag: "Left"; value: L }\<close> and \<^verbatim>\<open>{ _tag: "Right"; value: R }\<close>. The tag is the
  constructor, the \<^verbatim>\<open>value\<close> field its argument. The objects are never mutated by
  the library, so two Either values are compared by tag and payload.
\<close>

datatype ('l, 'r) either = Left 'l | Right 'r

definition left :: "'l \<Rightarrow> ('l, 'r) either" where
  "left v = Left v"

definition right :: "'r \<Rightarrow> ('l, 'r) either" where
  "right v = Right v"

text \<open>
  \<^verbatim>\<open>"_tag" in e && e._tag === "Left"\<close>: every value of the union has the field, so the
  test reads the tag.
\<close>

definition isLeft :: "('l, 'r) either \<Rightarrow> bool" where
  "isLeft e = (case e of Left _ \<Rightarrow> True | Right _ \<Rightarrow> False)"

definition isRight :: "('l, 'r) either \<Rightarrow> bool" where
  "isRight e = (case e of Left _ \<Rightarrow> False | Right _ \<Rightarrow> True)"

section \<open>Callbacks: state and faults\<close>

text \<open>
  Every function the library receives (\<^verbatim>\<open>f\<close>, \<^verbatim>\<open>fn\<close>, \<^verbatim>\<open>onError\<close>, \<^verbatim>\<open>onLeft\<close>,
  \<^verbatim>\<open>onRight\<close>) is a JavaScript function: calling it may change the caller's state (a
  counter, a log) and it completes either normally with a value or abruptly with a
  thrown value. A call is therefore a function from the state before the call to a
  completion and the state after it. The thrown value has TypeScript type
  \<^verbatim>\<open>unknown\<close>; it is the type variable \<open>'x\<close>.
\<close>

datatype ('x, 'a) completion = Normal 'a | Throw 'x

type_synonym ('s, 'x, 'a) js = "'s \<Rightarrow> ('x, 'a) completion \<times> 's"

text \<open>An expression that evaluates to \<open>v\<close> and touches nothing.\<close>

definition js_return :: "'a \<Rightarrow> ('s, 'x, 'a) js" where
  "js_return v = (\<lambda>s. (Normal v, s))"

text \<open>\<^verbatim>\<open>throw x\<close>.\<close>

definition js_throw :: "'x \<Rightarrow> ('s, 'x, 'a) js" where
  "js_throw x = (\<lambda>s. (Throw x, s))"

text \<open>
  Evaluation order: \<open>m\<close> is evaluated first; when it throws, the rest is not
  evaluated and the fault goes on to the caller.
\<close>

definition js_bind :: "('s, 'x, 'a) js \<Rightarrow> ('a \<Rightarrow> ('s, 'x, 'b) js) \<Rightarrow> ('s, 'x, 'b) js" where
  "js_bind m k = (\<lambda>s. case m s of (Normal v, s') \<Rightarrow> k v s' | (Throw x, s') \<Rightarrow> (Throw x, s'))"

text \<open>\<^verbatim>\<open>try { m } catch (error) { h(error) }\<close>.\<close>

definition js_try :: "('s, 'x, 'a) js \<Rightarrow> ('x \<Rightarrow> ('s, 'x, 'a) js) \<Rightarrow> ('s, 'x, 'a) js" where
  "js_try m h = (\<lambda>s. case m s of (Normal v, s') \<Rightarrow> (Normal v, s') | (Throw x, s') \<Rightarrow> h x s')"

text \<open>A callback without effects that returns \<open>f a\<close>, such as \<^verbatim>\<open>right\<close> passed to \<^verbatim>\<open>chain\<close>.\<close>

definition pure_fn :: "('a \<Rightarrow> 'b) \<Rightarrow> 'a \<Rightarrow> ('s, 'x, 'b) js" where
  "pure_fn f a = js_return (f a)"

section \<open>Synchronous combinators\<close>

text \<open>
  \<^verbatim>\<open>isRight(e) ? right(f(e.value)) : (e as Either<L, B>)\<close>. The conditional on the
  tag is the case distinction; the cast changes the static type of the Left only.
\<close>

definition mapE :: "('l, 'a) either \<Rightarrow> ('a \<Rightarrow> ('s, 'x, 'b) js) \<Rightarrow> ('s, 'x, ('l, 'b) either) js" where
  "mapE e f =
     (case e of
        Right a \<Rightarrow> js_bind (f a) (\<lambda>b. js_return (right b))
      | Left l \<Rightarrow> js_return (Left l))"

text \<open>\<^verbatim>\<open>isRight(e) ? f(e.value) : (e as Either<L, B>)\<close>.\<close>

definition chainE ::
  "('l, 'a) either \<Rightarrow> ('a \<Rightarrow> ('s, 'x, ('l, 'b) either) js) \<Rightarrow> ('s, 'x, ('l, 'b) either) js" where
  "chainE e f =
     (case e of
        Right a \<Rightarrow> f a
      | Left l \<Rightarrow> js_return (Left l))"

text \<open>
  \<^verbatim>\<open>Array.prototype.reduce(callback, initialValue)\<close>: the accumulator starts at the
  initial value, the callback is called on each element from index 0 upwards, and a
  callback that throws ends the iteration with that fault. (The callback also gets
  the index and the array; the one \<^verbatim>\<open>pipe\<close> passes ignores them.)
\<close>

fun reduce :: "('b \<Rightarrow> 'a \<Rightarrow> ('s, 'x, 'b) js) \<Rightarrow> 'a list \<Rightarrow> 'b \<Rightarrow> ('s, 'x, 'b) js" where
  "reduce cb [] acc = js_return acc"
| "reduce cb (y # ys) acc = js_bind (cb acc y) (\<lambda>acc'. reduce cb ys acc')"

text \<open>
  \<^verbatim>\<open>fns.reduce((acc, fn) => chain(acc, fn), initial)\<close>. The intermediate payloads
  have type \<^verbatim>\<open>any\<close>: one type \<open>'a\<close> of values for all of them.
\<close>

definition pipe ::
  "('l, 'a) either \<Rightarrow> ('a \<Rightarrow> ('s, 'x, ('l, 'a) either) js) list \<Rightarrow> ('s, 'x, ('l, 'a) either) js" where
  "pipe initial fns = reduce (\<lambda>acc fn. chainE acc fn) fns initial"

text \<open>\<^verbatim>\<open>isRight(e) ? onRight(e.value) : onLeft(e.value)\<close>.\<close>

definition foldE ::
  "('l, 'a) either \<Rightarrow> ('l \<Rightarrow> ('s, 'x, 'b) js) \<Rightarrow> ('a \<Rightarrow> ('s, 'x, 'b) js) \<Rightarrow> ('s, 'x, 'b) js" where
  "foldE e onLeft onRight =
     (case e of
        Right a \<Rightarrow> onRight a
      | Left l \<Rightarrow> onLeft l)"

section \<open>Fault capture\<close>

text \<open>
  \<^verbatim>\<open>try { return right(fn()); } catch (error) { return left(onError(error)); }\<close>.
  The call of \<^verbatim>\<open>onError\<close> is in the catch block, outside the try block: a fault it
  throws leaves \<^verbatim>\<open>tryCatch\<close>.
\<close>

definition tryCatch ::
  "(unit \<Rightarrow> ('s, 'x, 'r) js) \<Rightarrow> ('x \<Rightarrow> ('s, 'x, 'l) js) \<Rightarrow> ('s, 'x, ('l, 'r) either) js" where
  "tryCatch fn onError =
     js_try (js_bind (fn ()) (\<lambda>r. js_return (right r)))
       (\<lambda>error. js_bind (onError error) (\<lambda>l. js_return (left l)))"

section \<open>Deferred computations\<close>

text \<open>
  A \<^verbatim>\<open>Promise<R>\<close> is represented by the way it settles: fulfilled with a value,
  rejected with a fault, or never settled at all. \<^verbatim>\<open>TaskEither<L, R>\<close> is
  \<^verbatim>\<open>Promise<Either<L, R>>\<close>.
\<close>

datatype ('x, 'a) deferred = Fulfilled 'a | Rejected 'x | Pending

text \<open>
  The promise of an \<^verbatim>\<open>async\<close> function whose body runs to its end: a
  \<^verbatim>\<open>return\<close> fulfils it, a fault that leaves the body rejects it. The call itself
  never throws.
\<close>

definition async :: "('s, 'x, 'a) js \<Rightarrow> 's \<Rightarrow> ('x, 'a) deferred \<times> 's" where
  "async body s = (case body s of (Normal v, s') \<Rightarrow> (Fulfilled v, s') | (Throw x, s') \<Rightarrow> (Rejected x, s'))"

text \<open>
  \<^verbatim>\<open>async (fn, onError) => { try { return right(await fn()); }
     catch (error) { return left(onError(error)); } }\<close>

  \<^verbatim>\<open>fn()\<close> is called inside the try block, so a fault it throws before returning any
  promise enters the catch block. Otherwise \<^verbatim>\<open>await\<close> suspends the body on the
  promise \<open>p\<close> that \<^verbatim>\<open>fn\<close> returned: when \<open>p\<close> fulfils, the body resumes with the
  value and returns; when \<open>p\<close> rejects, the fault is thrown at the \<^verbatim>\<open>await\<close>, inside
  the try block, and enters the catch block; when \<open>p\<close> never settles, the body never
  resumes. The state is threaded through the call of \<^verbatim>\<open>fn\<close> and then through the
  call of \<^verbatim>\<open>onError\<close>; what other tasks do in between is not part of the model.
\<close>

definition tryCatchAsync ::
  "(unit \<Rightarrow> ('s, 'x, ('x, 'r) deferred) js) \<Rightarrow> ('x \<Rightarrow> ('s, 'x, 'l) js) \<Rightarrow>
     's \<Rightarrow> ('x, ('l, 'r) either) deferred \<times> 's" where
  "tryCatchAsync fn onError s =
     (case fn () s of
        (Throw error, s1) \<Rightarrow> async (js_bind (onError error) (\<lambda>l. js_return (left l))) s1
      | (Normal p, s1) \<Rightarrow>
          (case p of
             Fulfilled r \<Rightarrow> async (js_return (right r)) s1
           | Rejected error \<Rightarrow> async (js_bind (onError error) (\<lambda>l. js_return (left l))) s1
           | Pending \<Rightarrow> (Pending, s1)))"

section \<open>Nullable values\<close>

text \<open>
  The values \<^verbatim>\<open>fromNullable\<close> can receive: the two sentinels, the primitives, and
  objects (opaque, type \<open>'o\<close>). Numbers are restricted to the integers.
\<close>

datatype 'o jsval = JUndefined | JNull | JBool bool | JNum int | JStr string | JObj 'o

text \<open>
  JavaScript's \<^verbatim>\<open>ToBoolean\<close> on these values: \<^verbatim>\<open>undefined\<close>, \<^verbatim>\<open>null\<close>, \<^verbatim>\<open>false\<close>,
  \<^verbatim>\<open>0\<close> and \<^verbatim>\<open>""\<close> are falsy, everything else is truthy.
\<close>

fun truthy :: "'o jsval \<Rightarrow> bool" where
  "truthy JUndefined = False"
| "truthy JNull = False"
| "truthy (JBool b) = b"
| "truthy (JNum n) = (n \<noteq> 0)"
| "truthy (JStr t) = (t \<noteq> [])"
| "truthy (JObj _) = True"

text \<open>
  \<^verbatim>\<open>value === null || value === undefined ? left(error) : right(value)\<close>. Strict
  equality with \<^verbatim>\<open>null\<close> holds for \<^verbatim>\<open>null\<close> alone, and likewise for \<^verbatim>\<open>undefined\<close>.
\<close>

definition fromNullable :: "'o jsval \<Rightarrow> 'l \<Rightarrow> ('l, 'o jsval) either" where
  "fromNullable v error = (if v = JNull \<or> v = JUndefined then left error else right v)"

section \<open>The spec's reading of \<^verbatim>\<open>pipe\<close>\<close>

text \<open>
  The spec describes \<^verbatim>\<open>pipe\<close> as the left-to-right fold of \<^verbatim>\<open>chain\<close> over the
  functions, starting from \<^verbatim>\<open>initial\<close>:
  \<^verbatim>\<open>chain(chain(chain(initial, fns[0]), fns[1]), ...)\<close>. In a nested call the inner
  \<^verbatim>\<open>chain\<close> is evaluated first and the outer one is applied to its result.
\<close>

definition pipe_spec ::
  "('l, 'a) either \<Rightarrow> ('a \<Rightarrow> ('s, 'x, ('l, 'a) either) js) list \<Rightarrow> ('s, 'x, ('l, 'a) either) js" where
  "pipe_spec initial fns = foldl (\<lambda>inner fn. js_bind inner (\<lambda>e. chainE e fn)) (js_return initial) fns"

section \<open>Callers used as examples\<close>

text \<open>A stub that appends its name to a log and returns \<open>f a\<close>.\<close>

definition logged :: "string \<Rightarrow> ('a \<Rightarrow> 'b) \<Rightarrow> 'a \<Rightarrow> (string list, 'x, 'b) js" where
  "logged name f a = (\<lambda>log. (Normal (f a), log @ [name]))"

text \<open>\<^verbatim>\<open>() => Promise.reject("bad")\<close>.\<close>

definition failing_task :: "unit \<Rightarrow> ('s, string, (string, 'r) deferred) js" where
  "failing_task u = js_return (Rejected ''bad'')"

text \<open>\<^verbatim>\<open>() => Promise.resolve(42)\<close>.\<close>

definition succeeding_task :: "unit \<Rightarrow> ('s, string, (string, int) deferred) js" where
  "succeeding_task u = js_return (Fulfilled 42)"

text \<open>\<^verbatim>\<open>() => new Promise(() => {})\<close>, a promise that never settles.\<close>

definition hanging_task :: "unit \<Rightarrow> ('s, string, (string, int) deferred) js" where
  "hanging_task u = js_return Pending"

text \<open>\<^verbatim>\<open>(error) => { throw "handler failed" }\<close>.\<close>

definition throwing_handler :: "string \<Rightarrow> ('s, string, 'l) js" where
  "throwing_handler error = js_throw ''handler failed''"

text \<open>\<^verbatim>\<open>() => { throw "boom" }\<close>, typed as returning a promise.\<close>

definition throwing_task :: "unit \<Rightarrow> ('s, string, (string, int) deferred) js" where
  "throwing_task u = js_throw ''boom''"

text \<open>\<^verbatim>\<open>(error) => "Error: " + error\<close>.\<close>

definition describe_fault :: "string \<Rightarrow> ('s, string, string) js" where
  "describe_fault = pure_fn (\<lambda>error. ''Error: '' @ error)"

text \<open>Three steps for \<^verbatim>\<open>pipe\<close>: two that log their call, one that throws.\<close>

definition increment_step :: "int \<Rightarrow> (string list, string, (string, int) either) js" where
  "increment_step = logged ''increment'' (\<lambda>n. Right (n + 1))"

definition reject_step :: "int \<Rightarrow> (string list, string, (string, int) either) js" where
  "reject_step = logged ''reject'' (\<lambda>n. Left ''stop'')"

definition faulty_step :: "int \<Rightarrow> (string list, string, (string, int) either) js" where
  "faulty_step n = js_throw ''unreachable''"

definition logged_succ :: "int \<Rightarrow> (string list, string, int) js" where
  "logged_succ = logged ''succ'' (\<lambda>n. n + 1)"

section \<open>Sequencing laws\<close>

lemma js_return_bind: "js_bind (js_return v) k = k v"
  by (simp add: js_bind_def js_return_def)

lemma js_bind_return: "js_bind m js_return = m"
  by (auto simp: js_bind_def js_return_def fun_eq_iff split: prod.splits completion.splits)

lemma js_bind_assoc: "js_bind (js_bind m f) g = js_bind m (\<lambda>v. js_bind (f v) g)"
  by (auto simp: js_bind_def fun_eq_iff split: prod.splits completion.splits)

lemma reduce_Nil_fun: "reduce cb [] = js_return"
  by (rule ext) simp

lemma reduce_Cons_fun: "reduce cb (f # fns) = (\<lambda>acc. js_bind (cb acc f) (reduce cb fns))"
  by (rule ext) simp

text \<open>Running \<^verbatim>\<open>reduce\<close> after \<open>m\<close> is folding the list over \<open>m\<close> from the left.\<close>

lemma reduce_foldl:
  "js_bind m (reduce cb fns) = foldl (\<lambda>inner fn. js_bind inner (\<lambda>e. cb e fn)) m fns"
proof (induction fns arbitrary: m)
  case Nil
  show ?case by (simp only: reduce_Nil_fun js_bind_return foldl_Nil)
next
  case (Cons f fns)
  have "js_bind m (reduce cb (f # fns)) = js_bind m (\<lambda>acc. js_bind (cb acc f) (reduce cb fns))"
    by (simp only: reduce_Cons_fun)
  also have "\<dots> = js_bind (js_bind m (\<lambda>e. cb e f)) (reduce cb fns)"
    by (simp only: js_bind_assoc)
  also have "\<dots> = foldl (\<lambda>inner fn. js_bind inner (\<lambda>e. cb e fn)) (js_bind m (\<lambda>e. cb e f)) fns"
    by (rule Cons.IH)
  also have "\<dots> = foldl (\<lambda>inner fn. js_bind inner (\<lambda>e. cb e fn)) m (f # fns)"
    by simp
  finally show ?case .
qed

lemma reduce_append: "reduce cb (xs @ ys) acc = js_bind (reduce cb xs acc) (reduce cb ys)"
proof (induction xs arbitrary: acc)
  case Nil
  show ?case by (simp add: js_return_bind)
next
  case (Cons x xs)
  have "reduce cb ((x # xs) @ ys) acc = js_bind (cb acc x) (\<lambda>acc'. reduce cb (xs @ ys) acc')"
    by simp
  also have "\<dots> = js_bind (cb acc x) (\<lambda>acc'. js_bind (reduce cb xs acc') (reduce cb ys))"
    by (simp only: Cons.IH)
  also have "\<dots> = js_bind (js_bind (cb acc x) (reduce cb xs)) (reduce cb ys)"
    by (simp only: js_bind_assoc)
  also have "\<dots> = js_bind (reduce cb (x # xs) acc) (reduce cb ys)"
    by (simp only: reduce_Cons_fun)
  finally show ?case .
qed

lemma pipe_as_bind:
  "pipe initial fns = js_bind (js_return initial) (reduce (\<lambda>acc fn. chainE acc fn) fns)"
  by (simp add: pipe_def js_return_bind)

lemma pipe_Cons: "pipe initial (f # fns) = js_bind (chainE initial f) (\<lambda>acc. pipe acc fns)"
  by (simp add: pipe_def)

lemma pipe_append: "pipe initial (fs @ gs) = js_bind (pipe initial fs) (\<lambda>acc. pipe acc gs)"
proof -
  have "(\<lambda>acc. pipe acc gs) = reduce (\<lambda>acc fn. chainE acc fn) gs"
    by (rule ext) (simp add: pipe_def)
  then show ?thesis by (simp add: pipe_def reduce_append)
qed

lemma chainE_Left: "chainE (Left l) f s = (Normal (Left l), s)"
  by (simp add: chainE_def js_return_def)

lemma pipe_Left: "pipe (Left l) fns s = (Normal (Left l), s)"
proof (induction fns arbitrary: s)
  case Nil
  show ?case by (simp add: pipe_def js_return_def)
next
  case (Cons f fns)
  have "pipe (Left l) (f # fns) s = js_bind (chainE (Left l) f) (\<lambda>acc. pipe acc fns) s"
    by (simp add: pipe_def)
  also have "\<dots> = pipe (Left l) fns s"
    by (simp add: js_bind_def chainE_Left)
  finally show ?case by (simp add: Cons.IH)
qed

lemma handler_settles:
  assumes "onError x s1 = (Normal l, s2)"
  shows "async (js_bind (onError x) (\<lambda>l. js_return (left l))) s1 = (Fulfilled (Left l), s2)"
  using assms by (simp add: async_def js_bind_def js_return_def left_def)

section \<open>Results\<close>

subsection \<open>The asynchronous fault boundary\<close>

text \<open>
  C1, as the code has it. When \<^verbatim>\<open>onError\<close> itself always completes normally, the
  deferred returned by \<^verbatim>\<open>tryCatchAsync(fn, onError)\<close> is never rejected: it fulfils
  with \<^verbatim>\<open>Right(result)\<close> when the deferred of \<^verbatim>\<open>fn\<close> fulfils with \<^verbatim>\<open>result\<close>, it
  fulfils with \<^verbatim>\<open>Left(onError(fault))\<close> when that deferred rejects with \<^verbatim>\<open>fault\<close>,
  and it stays unsettled when that deferred never settles.
\<close>

theorem tryCatchAsync_boundary:
  assumes total: "\<forall>x t. \<exists>l t'. onError x t = (Normal l, t')"
  shows "tryCatchAsync fn onError s \<noteq> (Rejected y, t)
    \<and> (fn () s = (Normal (Fulfilled r), s1) \<longrightarrow> tryCatchAsync fn onError s = (Fulfilled (Right r), s1))
    \<and> (fn () s = (Normal (Rejected x), s1) \<and> onError x s1 = (Normal l, s2) \<longrightarrow>
          tryCatchAsync fn onError s = (Fulfilled (Left l), s2))
    \<and> (fn () s = (Normal Pending, s1) \<longrightarrow> tryCatchAsync fn onError s = (Pending, s1))"
proof (intro conjI impI)
  have handled: "async (js_bind (onError x') (\<lambda>l. js_return (left l))) s' \<noteq> (Rejected y, t)" for x' s'
  proof -
    from total obtain l' t' where "onError x' s' = (Normal l', t')" by blast
    then show ?thesis by (simp add: handler_settles)
  qed
  show "tryCatchAsync fn onError s \<noteq> (Rejected y, t)"
  proof (cases "fn () s")
    case (Pair c s')
    show ?thesis
    proof (cases c)
      case (Normal p)
      with Pair handled show ?thesis
        by (cases p) (simp_all add: tryCatchAsync_def async_def js_return_def)
    next
      case (Throw x')
      with Pair handled show ?thesis by (simp add: tryCatchAsync_def)
    qed
  qed
next
  assume "fn () s = (Normal (Fulfilled r), s1)"
  then show "tryCatchAsync fn onError s = (Fulfilled (Right r), s1)"
    by (simp add: tryCatchAsync_def async_def js_return_def right_def)
next
  assume "fn () s = (Normal (Rejected x), s1) \<and> onError x s1 = (Normal l, s2)"
  then show "tryCatchAsync fn onError s = (Fulfilled (Left l), s2)"
    by (simp add: tryCatchAsync_def handler_settles)
next
  assume "fn () s = (Normal Pending, s1)"
  then show "tryCatchAsync fn onError s = (Pending, s1)"
    by (simp add: tryCatchAsync_def)
qed

theorem tryCatchAsync_boundary_witness:
  "failing_task () () = (Normal (Rejected ''bad'' :: (string, int) deferred), ())
   \<and> describe_fault ''bad'' () = (Normal ''Error: bad'', ())
   \<and> tryCatchAsync (failing_task :: unit \<Rightarrow> (unit, string, (string, int) deferred) js) describe_fault ()
       = (Fulfilled (Left ''Error: bad''), ())
   \<and> tryCatchAsync (failing_task :: unit \<Rightarrow> (unit, string, (string, int) deferred) js) describe_fault ()
       \<noteq> (Rejected ''bad'', ())
   \<and> tryCatchAsync succeeding_task describe_fault () = (Fulfilled (Right 42), ())
   \<and> tryCatchAsync hanging_task describe_fault () = (Pending, ())"
proof -
  have total: "\<forall>x t. \<exists>l t'. (describe_fault :: string \<Rightarrow> (unit, string, string) js) x t = (Normal l, t')"
    by (simp add: describe_fault_def pure_fn_def js_return_def)
  have h1: "failing_task () () = (Normal (Rejected ''bad'' :: (string, int) deferred), ())"
    by (simp add: failing_task_def js_return_def)
  have h2: "describe_fault ''bad'' () = (Normal ''Error: bad'', ())"
    by (simp add: describe_fault_def pure_fn_def js_return_def)
  have h3: "succeeding_task () () = (Normal (Fulfilled 42), ())"
    by (simp add: succeeding_task_def js_return_def)
  have h4: "hanging_task () () = (Normal Pending, ())"
    by (simp add: hanging_task_def js_return_def)
  note t = tryCatchAsync_boundary [OF total, where fn = failing_task and s = "()" and x = "''bad''"
      and ?s1.0 = "()" and l = "''Error: bad''" and ?s2.0 = "()" and y = "''bad''" and t = "()"
      and r = "0::int"]
  note u = tryCatchAsync_boundary [OF total, where fn = succeeding_task and s = "()" and r = 42
      and ?s1.0 = "()" and x = "''bad''" and l = "''Error: bad''" and ?s2.0 = "()" and y = "''bad''"
      and t = "()"]
  note v = tryCatchAsync_boundary [OF total, where fn = hanging_task and s = "()" and r = 42
      and ?s1.0 = "()" and x = "''bad''" and l = "''Error: bad''" and ?s2.0 = "()" and y = "''bad''"
      and t = "()"]
  from u h3 have a: "tryCatchAsync succeeding_task describe_fault () = (Fulfilled (Right 42), ())"
    by blast
  from v h4 have b: "tryCatchAsync hanging_task describe_fault () = (Pending, ())"
    by blast
  from t h1 h2 a b show ?thesis by blast
qed

text \<open>
  C1 as stated fails: the promise of \<^verbatim>\<open>fn\<close> rejects with \<^verbatim>\<open>"bad"\<close>, the handler
  throws, and the deferred that \<^verbatim>\<open>tryCatchAsync\<close> returned is rejected with the
  handler's fault.
\<close>

theorem tryCatchAsync_rejects_counterexample:
  "tryCatchAsync failing_task throwing_handler () = (Rejected ''handler failed'', ())"
  by (simp add: tryCatchAsync_def failing_task_def throwing_handler_def async_def js_bind_def
      js_return_def js_throw_def)

text \<open>
  C8. When \<^verbatim>\<open>fn\<close> throws \<open>x\<close> before it has returned any deferred, the fault is
  caught: the returned deferred settles the way the catch block
  \<^verbatim>\<open>return left(onError(x))\<close> completes, that is, fulfilled with \<^verbatim>\<open>Left l\<close> where
  \<open>l\<close> is what \<^verbatim>\<open>onError(x)\<close> returns.
\<close>

theorem tryCatchAsync_sync_fault:
  "(fn () s = (Throw x, s1) \<longrightarrow>
      tryCatchAsync fn onError s = async (js_bind (onError x) (\<lambda>l. js_return (left l))) s1)
   \<and> (fn () s = (Throw x, s1) \<and> onError x s1 = (Normal l, s2) \<longrightarrow>
      tryCatchAsync fn onError s = (Fulfilled (Left l), s2))"
  by (simp add: tryCatchAsync_def handler_settles)

theorem tryCatchAsync_sync_fault_witness:
  "throwing_task () () = (Throw ''boom'', ())
   \<and> describe_fault ''boom'' () = (Normal ''Error: boom'', ())
   \<and> tryCatchAsync throwing_task describe_fault () = (Fulfilled (Left ''Error: boom''), ())"
proof -
  have h1: "throwing_task () () = (Throw ''boom'', ())"
    by (simp add: throwing_task_def js_throw_def)
  have h2: "describe_fault ''boom'' () = (Normal ''Error: boom'', ())"
    by (simp add: describe_fault_def pure_fn_def js_return_def)
  note t = tryCatchAsync_sync_fault [where fn = throwing_task and s = "()" and x = "''boom''"
      and ?s1.0 = "()" and onError = describe_fault and l = "''Error: boom''" and ?s2.0 = "()"]
  from t h1 h2 show ?thesis by blast
qed

subsection \<open>The synchronous fault boundary\<close>

text \<open>
  C4. \<^verbatim>\<open>tryCatch(fn, onError)\<close> returns \<^verbatim>\<open>Right(r)\<close> when \<^verbatim>\<open>fn\<close> completes normally
  with \<open>r\<close>. When \<^verbatim>\<open>fn\<close> throws \<open>x\<close>, the fault is caught and handed to \<^verbatim>\<open>onError\<close> and
  the result is that of \<^verbatim>\<open>left(onError(x))\<close>: \<^verbatim>\<open>Left l\<close> for the \<open>l\<close> that
  \<^verbatim>\<open>onError(x)\<close> returns. In particular \<^verbatim>\<open>tryCatch(() => 42, onError)\<close> is
  \<^verbatim>\<open>right(42)\<close>.
\<close>

theorem tryCatch_captures:
  "(fn () s = (Normal r, s1) \<longrightarrow> tryCatch fn onError s = (Normal (Right r), s1))
   \<and> (fn () s = (Throw x, s1) \<longrightarrow>
        tryCatch fn onError s = js_bind (onError x) (\<lambda>l. js_return (left l)) s1)
   \<and> (fn () s = (Throw x, s1) \<and> onError x s1 = (Normal l, s2) \<longrightarrow>
        tryCatch fn onError s = (Normal (Left l), s2))
   \<and> tryCatch (\<lambda>u. js_return (42::int)) onError s = (Normal (right 42), s)"
  by (simp add: tryCatch_def js_try_def js_bind_def js_return_def right_def left_def)

theorem tryCatch_captures_witness:
  "tryCatch (\<lambda>u. js_throw ''boom'') describe_fault ()
     = (Normal (Left ''Error: boom'' :: (string, int) either), ())
   \<and> tryCatch (\<lambda>u. js_return (42::int)) describe_fault ()
     = (Normal (Right 42 :: (string, int) either), ())"
proof -
  have h1: "(\<lambda>u. js_throw ''boom'' :: (unit, string, int) js) () () = (Throw ''boom'', ())"
    by (simp add: js_throw_def)
  have h2: "describe_fault ''boom'' () = (Normal ''Error: boom'', ())"
    by (simp add: describe_fault_def pure_fn_def js_return_def)
  have h3: "(\<lambda>u. js_return (42::int) :: (unit, string, int) js) () () = (Normal 42, ())"
    by (simp add: js_return_def)
  note t1 = tryCatch_captures [where fn = "\<lambda>u. js_throw ''boom''" and s = "()" and x = "''boom''"
      and ?s1.0 = "()" and onError = describe_fault and l = "''Error: boom''" and ?s2.0 = "()"
      and r = "0::int"]
  note t2 = tryCatch_captures [where fn = "\<lambda>u. js_return (42::int)" and s = "()" and r = 42
      and ?s1.0 = "()" and onError = describe_fault and x = "''boom''"
      and l = "''Error: boom''" and ?s2.0 = "()"]
  from t1 h1 h2 have "tryCatch (\<lambda>u. js_throw ''boom'') describe_fault ()
     = (Normal (Left ''Error: boom'' :: (string, int) either), ())"
    by blast
  moreover from t2 h3 have "tryCatch (\<lambda>u. js_return (42::int)) describe_fault ()
     = (Normal (Right 42 :: (string, int) either), ())"
    by blast
  ultimately show ?thesis by blast
qed

subsection \<open>Short-circuiting and sequencing\<close>

text \<open>
  C2. \<^verbatim>\<open>chain\<close> on a Left returns that Left and leaves the state as it was,
  whatever \<open>f\<close> would have done: \<open>f\<close> is not called. The same holds for \<^verbatim>\<open>pipe\<close>
  started on a Left, for any list of functions. And when the functions \<open>fs\<close> have
  produced \<^verbatim>\<open>Right a\<close> and the next step \<open>fi\<close> returns \<^verbatim>\<open>Left l\<close>, then the result of
  the whole \<^verbatim>\<open>pipe\<close> is \<^verbatim>\<open>Left l\<close> and the state is the one \<open>fi\<close> left behind,
  whatever the later functions \<open>gs\<close> are: none of them is called. In general, a Left
  reached after any prefix \<open>fs\<close> of the functions is the result of the whole call.
\<close>

theorem left_short_circuits:
  "chainE (Left l) f s = (Normal (Left l), s)
   \<and> pipe (Left l) fns s = (Normal (Left l), s)
   \<and> (pipe initial fs s = (Normal (Right a), s1) \<and> fi a s1 = (Normal (Left l), s2)
        \<longrightarrow> pipe initial (fs @ fi # gs) s = (Normal (Left l), s2))
   \<and> (pipe initial fs s = (Normal (Left l), s1)
        \<longrightarrow> pipe initial (fs @ gs) s = (Normal (Left l), s1))"
proof (intro conjI impI)
  show "chainE (Left l) f s = (Normal (Left l), s)" by (rule chainE_Left)
  show "pipe (Left l) fns s = (Normal (Left l), s)" by (rule pipe_Left)
next
  assume h: "pipe initial fs s = (Normal (Left l), s1)"
  have "pipe initial (fs @ gs) s = pipe (Left l) gs s1"
    using h by (simp add: pipe_append js_bind_def)
  then show "pipe initial (fs @ gs) s = (Normal (Left l), s1)"
    by (simp only: pipe_Left)
next
  assume h: "pipe initial fs s = (Normal (Right a), s1) \<and> fi a s1 = (Normal (Left l), s2)"
  have "pipe initial (fs @ fi # gs) s = pipe (Right a) (fi # gs) s1"
    using h by (simp add: pipe_append js_bind_def)
  also have "\<dots> = pipe (Left l) gs s2"
    using h by (simp add: pipe_Cons js_bind_def chainE_def)
  also have "\<dots> = (Normal (Left l), s2)" by (rule pipe_Left)
  finally show "pipe initial (fs @ fi # gs) s = (Normal (Left l), s2)" .
qed

theorem left_short_circuits_witness:
  "pipe (Right 1) [increment_step] [] = (Normal (Right 2), [''increment''])
   \<and> reject_step 2 [''increment''] = (Normal (Left ''stop''), [''increment'', ''reject''])
   \<and> pipe (Right 1) [increment_step, reject_step] []
       = (Normal (Left ''stop''), [''increment'', ''reject''])
   \<and> pipe (Right 1) [increment_step, reject_step, increment_step, faulty_step] []
       = (Normal (Left ''stop''), [''increment'', ''reject''])
   \<and> chainE (Left ''stop'') increment_step [] = (Normal (Left ''stop''), [])"
proof -
  have h1: "pipe (Right 1) [increment_step] [] = (Normal (Right 2), [''increment''])"
    by (simp add: pipe_def chainE_def increment_step_def logged_def js_bind_def js_return_def)
  have h2: "reject_step 2 [''increment''] = (Normal (Left ''stop''), [''increment'', ''reject''])"
    by (simp add: reject_step_def logged_def)
  note t = left_short_circuits [where initial = "Right 1" and s = "[]" and fs = "[increment_step]"
      and a = 2 and ?s1.0 = "[''increment'']" and fi = reject_step and l = "''stop''"
      and ?s2.0 = "[''increment'', ''reject'']" and gs = "[]"
      and f = increment_step and fns = "[faulty_step]"]
  from t h1 h2 have h3: "pipe (Right 1) [increment_step, reject_step] []
       = (Normal (Left ''stop''), [''increment'', ''reject''])"
    by simp
  note u = left_short_circuits [where initial = "Right 1" and s = "[]"
      and fs = "[increment_step, reject_step]" and l = "''stop''"
      and ?s1.0 = "[''increment'', ''reject'']" and gs = "[increment_step, faulty_step]"
      and f = increment_step and fns = "[faulty_step]" and a = 2 and fi = reject_step
      and ?s2.0 = "[''increment'', ''reject'']"]
  from u h3 have "pipe (Right 1) [increment_step, reject_step, increment_step, faulty_step] []
       = (Normal (Left ''stop''), [''increment'', ''reject''])"
    by simp
  moreover from t have "chainE (Left ''stop'') increment_step [] = (Normal (Left ''stop''), [])"
    by blast
  ultimately show ?thesis using h1 h2 h3 by blast
qed

text \<open>
  C3. \<^verbatim>\<open>pipe(initial, f1, ..., fn)\<close> is the left-to-right fold of \<^verbatim>\<open>chain\<close> over the
  functions, starting from \<^verbatim>\<open>initial\<close>; for three functions it is
  \<^verbatim>\<open>chain(chain(chain(initial, f1), f2), f3)\<close>.
\<close>

theorem pipe_is_fold_of_chain:
  "pipe initial fns = pipe_spec initial fns
   \<and> pipe initial [f1, f2, f3] = js_bind (js_bind (chainE initial f1) (\<lambda>e. chainE e f2)) (\<lambda>e. chainE e f3)"
proof
  show "pipe initial fns = pipe_spec initial fns"
    unfolding pipe_as_bind pipe_spec_def by (rule reduce_foldl)
next
  have "pipe initial [f1, f2, f3] = pipe_spec initial [f1, f2, f3]"
    unfolding pipe_as_bind pipe_spec_def by (rule reduce_foldl)
  then show "pipe initial [f1, f2, f3] = js_bind (js_bind (chainE initial f1) (\<lambda>e. chainE e f2)) (\<lambda>e. chainE e f3)"
    by (simp add: pipe_spec_def js_return_bind)
qed

text \<open>
  C5. The identity laws of \<^verbatim>\<open>chain\<close>: \<^verbatim>\<open>chain(right(a), f)\<close> is \<^verbatim>\<open>f(a)\<close>, with the
  effects and faults of that one call, and \<^verbatim>\<open>chain(e, right)\<close> is \<^verbatim>\<open>e\<close>.
\<close>

theorem chain_identity_laws:
  "chainE (right a) f = f a \<and> chainE e (pure_fn right) = js_return e"
  by (cases e) (simp_all add: chainE_def right_def pure_fn_def)

text \<open>
  C10. \<^verbatim>\<open>pipe(initial)\<close> with no functions returns \<^verbatim>\<open>initial\<close> itself: no callback
  runs, nothing is thrown, the state is the one before the call.
\<close>

theorem pipe_no_functions: "pipe initial [] s = (Normal initial, s)"
  by (simp add: pipe_def js_return_def)

subsection \<open>Transforming and unwrapping\<close>

text \<open>
  C6. \<^verbatim>\<open>map\<close> on \<^verbatim>\<open>Right(a)\<close> returns \<^verbatim>\<open>Right(f(a))\<close>; on a Left it returns that
  Left, payload untouched, without calling \<open>f\<close>.
\<close>

theorem map_right_and_left:
  "(f a s = (Normal b, s1) \<longrightarrow> mapE (Right a :: ('l, 'a) either) f s = (Normal (Right b), s1))
   \<and> mapE (Right a :: ('l, 'a) either) (pure_fn g) s = (Normal (Right (g a)), s)
   \<and> mapE (Left l :: ('l, 'a) either) f s = (Normal (Left l), s)"
  by (simp add: mapE_def js_bind_def js_return_def right_def pure_fn_def)

theorem map_right_and_left_witness:
  "logged_succ 1 [] = (Normal 2, [''succ''])
   \<and> mapE (Right 1 :: (string, int) either) logged_succ [] = (Normal (Right 2), [''succ''])
   \<and> mapE (Left ''e'') logged_succ [] = (Normal (Left ''e''), [])"
proof -
  have h: "logged_succ 1 [] = (Normal 2, [''succ''])"
    by (simp add: logged_succ_def logged_def)
  note t = map_right_and_left [where f = logged_succ and a = 1 and s = "[]"
      and b = 2 and ?s1.0 = "[''succ'']" and l = "''e''" and g = "\<lambda>n. n + 1"]
  from t h have "mapE (Right 1 :: (string, int) either) logged_succ [] = (Normal (Right 2), [''succ''])"
    by blast
  moreover from t have "mapE (Left ''e'') logged_succ [] = (Normal (Left ''e''), [])"
    by blast
  ultimately show ?thesis using h by blast
qed

text \<open>
  C7. \<^verbatim>\<open>fold\<close> on \<^verbatim>\<open>left(x)\<close> is the call \<^verbatim>\<open>onLeft(x)\<close> and nothing else, on
  \<^verbatim>\<open>right(a)\<close> it is the call \<^verbatim>\<open>onRight(a)\<close> and nothing else. With two handlers
  that log their calls, the log gains exactly one entry, that of the handler the
  tag selects.
\<close>

theorem fold_runs_one_handler:
  "foldE (left x) onLeft onRight = onLeft x
   \<and> foldE (right a) onLeft onRight = onRight a
   \<and> foldE (left x) (logged ''onLeft'' g) (logged ''onRight'' h) log = (Normal (g x), log @ [''onLeft''])
   \<and> foldE (right a) (logged ''onLeft'' g) (logged ''onRight'' h) log = (Normal (h a), log @ [''onRight''])"
  by (simp add: foldE_def left_def right_def logged_def)

text \<open>
  C9. \<^verbatim>\<open>fromNullable\<close> returns \<^verbatim>\<open>Right(value)\<close> for every value other than
  \<^verbatim>\<open>null\<close> and \<^verbatim>\<open>undefined\<close>, the falsy \<^verbatim>\<open>0\<close>, \<^verbatim>\<open>""\<close> and \<^verbatim>\<open>false\<close> included, and
  \<^verbatim>\<open>Left(error)\<close> for those two alone.
\<close>

theorem fromNullable_sentinels:
  "(v \<noteq> JNull \<and> v \<noteq> JUndefined \<longrightarrow> fromNullable v error = Right v)
   \<and> (\<not> truthy (JNum 0) \<and> fromNullable (JNum 0) error = Right (JNum 0))
   \<and> (\<not> truthy (JStr []) \<and> fromNullable (JStr []) error = Right (JStr []))
   \<and> (\<not> truthy (JBool False) \<and> fromNullable (JBool False) error = Right (JBool False))
   \<and> fromNullable JNull error = Left error
   \<and> fromNullable JUndefined error = Left error
   \<and> (isLeft (fromNullable v error) \<longleftrightarrow> v = JNull \<or> v = JUndefined)"
  by (simp add: fromNullable_def left_def right_def isLeft_def)

theorem fromNullable_sentinels_witness:
  "(JNum 7 :: unit jsval) \<noteq> JNull \<and> (JNum 7 :: unit jsval) \<noteq> JUndefined
   \<and> fromNullable (JNum 7 :: unit jsval) ''missing'' = Right (JNum 7)
   \<and> fromNullable (JNull :: unit jsval) ''missing'' = Left ''missing''"
proof -
  note t = fromNullable_sentinels [where v = "JNum 7 :: unit jsval" and error = "''missing''"]
  have "(JNum 7 :: unit jsval) \<noteq> JNull \<and> (JNum 7 :: unit jsval) \<noteq> JUndefined" by simp
  with t show ?thesis by blast
qed

end
